theory Spec2Isabelle
  imports Complex_Main "HOL-Library.Multiset"
begin

section \<open>Poll actions: data model\<close>

text \<open>
  The server actions of \<open>app/lib/actions/poll-actions.ts\<close> (\<open>createPoll\<close>,
  \<open>getUserPolls\<close>, \<open>getPollById\<close>, \<open>submitVote\<close>, \<open>deletePoll\<close>, \<open>updatePoll\<close>)
  are embedded as functions of an explicit request context and an explicit store.
  Every \<open>return\<close> of the source is a branch of the model, in the source's order.

  An identity is the \<open>user.id\<close> string of the session's user. An error that the
  identity provider or the storage client hands back is an object with a \<open>code\<close> and a
  \<open>message\<close>; the actions read nothing else of it.
\<close>

type_synonym identity = string

record backend_error =
  code :: string
  message :: string

text \<open>
  The answer of a storage query, \<open>{ data, error }\<close>, and the answer of
  \<open>supabase.auth.getUser()\<close>, \<open>{ data: { user }, error }\<close>. Both fields are kept apart,
  because the actions test them independently.
\<close>

record 'a response =
  data :: "'a option"
  error :: "backend_error option"

record auth_response =
  user :: "identity option"
  userError :: "backend_error option"

text \<open>
  A JavaScript \<open>number\<close>, the type of \<open>submitVote\<close>'s \<open>optionIndex\<close>: a finite value,
  \<open>NaN\<close> or an infinity. Finite doubles are rationals, and the model admits every
  rational; negative zero compares like zero and is not told apart. \<open>js_less\<close> and
  \<open>js_greater_eq\<close> are the operators \<open><\<close> and \<open>>=\<close>: both are false as soon as an
  operand is \<open>NaN\<close>.
\<close>

datatype number = Finite rat | NaN | PosInfinity | NegInfinity

fun js_less :: "number \<Rightarrow> number \<Rightarrow> bool" where
  "js_less (Finite x) (Finite y) = (x < y)"
| "js_less (Finite x) PosInfinity = True"
| "js_less NegInfinity (Finite y) = True"
| "js_less NegInfinity PosInfinity = True"
| "js_less _ _ = False"

definition js_greater_eq :: "number \<Rightarrow> number \<Rightarrow> bool" where
  "js_greater_eq a b = (a \<noteq> NaN \<and> b \<noteq> NaN \<and> \<not> js_less a b)"

text \<open>
  Rows of the two tables. A poll's \<open>options\<close> column is \<open>None\<close> when it does not hold an
  array (the \<open>Array.isArray\<close> test of \<open>submitVote\<close>). \<open>created_at\<close> is a point in time,
  compared as a number. A vote's \<open>option_index\<close> is the \<open>optionIndex\<close> that \<open>submitVote\<close>
  hands to the insert, whatever number it is.
\<close>

record poll_row =
  pr_id :: string
  pr_user_id :: identity
  pr_question :: string
  pr_options :: "string list option"
  pr_created_at :: int

record vote_row =
  vr_poll_id :: string
  vr_user_id :: identity
  vr_option_index :: number

text \<open>
  The store: both tables, in insertion order, and the paths handed to
  \<open>revalidatePath\<close> so far.
\<close>

record store =
  polls :: "poll_row list"
  votes :: "vote_row list"
  revalidated :: "string list"

text \<open>
  The request context makes the ambient inputs of an action explicit:
  the cookie jar of \<open>next/headers\<close> (\<open>None\<close> when the import or \<open>cookies()\<close> throws),
  the answer of the identity provider, an infrastructure failure (if any) for each
  storage call the action makes, and the values the database assigns to the
  defaulted columns \<open>id\<close> and \<open>created_at\<close> of an inserted poll.
\<close>

record ctx =
  cookies :: "(string \<times> string) list option"
  session :: auth_response
  polls_fault :: "backend_error option"
  votes_select_fault :: "backend_error option"
  votes_insert_fault :: "backend_error option"
  new_id :: string
  now :: int

type_synonym form_data = "(string \<times> string) list"

section \<open>Form data, cookies and truthiness\<close>

text \<open>
  The forms these actions receive hold text entries. \<open>FormData.get\<close> yields the first
  entry of a name, \<open>FormData.getAll\<close> all of them.
\<close>

definition fd_get :: "form_data \<Rightarrow> string \<Rightarrow> string option" where
  "fd_get formData name = map_of formData name"

definition fd_getAll :: "form_data \<Rightarrow> string \<Rightarrow> string list" where
  "fd_getAll formData name = map snd (filter (\<lambda>e. fst e = name) formData)"

text \<open>JavaScript truthiness of a \<open>string | null | undefined\<close>: absent and empty are falsy.\<close>

fun truthy :: "string option \<Rightarrow> bool" where
  "truthy None = False"
| "truthy (Some v) = (v \<noteq> [])"

section \<open>The storage client's query contract\<close>

text \<open>
  The storage gateway is the Supabase client, an external collaborator. The actions
  rely on this much of its contract: a call that fails answers \<open>data = null\<close> with the
  error; \<open>.single()\<close> answers the row when exactly one row matches and the error
  \<open>PGRST116\<close> otherwise; \<open>.maybeSingle()\<close> answers \<open>null\<close> without error for no row, the
  row for one, and \<open>PGRST116\<close> for several; \<open>insert\<close>, \<open>update\<close> and \<open>delete\<close> answer
  without error however many rows they touch.
\<close>

definition PGRST116 :: backend_error where
  "PGRST116 = \<lparr>code = ''PGRST116'',
     message = ''JSON object requested, multiple (or no) rows returned''\<rparr>"

definition failed :: "backend_error \<Rightarrow> 'a response" where
  "failed e = \<lparr>data = None, error = Some e\<rparr>"

definition single :: "backend_error option \<Rightarrow> 'a list \<Rightarrow> 'a response" where
  "single fault rows =
     (case fault of
        Some e \<Rightarrow> failed e
      | None \<Rightarrow> (case rows of
                   [r] \<Rightarrow> \<lparr>data = Some r, error = None\<rparr>
                 | _ \<Rightarrow> failed PGRST116))"

definition maybeSingle :: "backend_error option \<Rightarrow> 'a list \<Rightarrow> 'a response" where
  "maybeSingle fault rows =
     (case fault of
        Some e \<Rightarrow> failed e
      | None \<Rightarrow> (case rows of
                   [] \<Rightarrow> \<lparr>data = None, error = None\<rparr>
                 | [r] \<Rightarrow> \<lparr>data = Some r, error = None\<rparr>
                 | _ \<Rightarrow> failed PGRST116))"

text \<open>\<open>.order("created_at", { ascending: false })\<close>: newest first.\<close>

definition order_desc :: "poll_row list \<Rightarrow> poll_row list" where
  "order_desc rows = sort_key (\<lambda>r. - pr_created_at r) rows"

definition select_ordered :: "backend_error option \<Rightarrow> poll_row list \<Rightarrow> poll_row list response" where
  "select_ordered fault rows =
     (case fault of
        Some e \<Rightarrow> failed e
      | None \<Rightarrow> \<lparr>data = Some (order_desc rows), error = None\<rparr>)"

definition insert_poll :: "backend_error option \<Rightarrow> poll_row \<Rightarrow> store \<Rightarrow> backend_error option \<times> store" where
  "insert_poll fault row s =
     (case fault of
        Some e \<Rightarrow> (Some e, s)
      | None \<Rightarrow> (None, s\<lparr>polls := polls s @ [row]\<rparr>))"

definition insert_vote :: "backend_error option \<Rightarrow> vote_row \<Rightarrow> store \<Rightarrow> backend_error option \<times> store" where
  "insert_vote fault row s =
     (case fault of
        Some e \<Rightarrow> (Some e, s)
      | None \<Rightarrow> (None, s\<lparr>votes := votes s @ [row]\<rparr>))"

definition update_polls ::
  "backend_error option \<Rightarrow> (poll_row \<Rightarrow> bool) \<Rightarrow> (poll_row \<Rightarrow> poll_row) \<Rightarrow> store
     \<Rightarrow> backend_error option \<times> store" where
  "update_polls fault matches change s =
     (case fault of
        Some e \<Rightarrow> (Some e, s)
      | None \<Rightarrow> (None, s\<lparr>polls := map (\<lambda>r. if matches r then change r else r) (polls s)\<rparr>))"

definition delete_polls ::
  "backend_error option \<Rightarrow> (poll_row \<Rightarrow> bool) \<Rightarrow> store \<Rightarrow> backend_error option \<times> store" where
  "delete_polls fault matches s =
     (case fault of
        Some e \<Rightarrow> (Some e, s)
      | None \<Rightarrow> (None, s\<lparr>polls := filter (\<lambda>r. \<not> matches r) (polls s)\<rparr>))"

definition revalidatePath :: "string \<Rightarrow> store \<Rightarrow> store" where
  "revalidatePath path s = s\<lparr>revalidated := revalidated s @ [path]\<rparr>"

section \<open>The actions\<close>

text \<open>
  A mutating action answers \<open>{ error }\<close>: the model returns the \<open>error\<close> field
  (\<open>None\<close> for \<open>null\<close>) and the store after the call.

  The double-submit check that opens \<open>createPoll\<close> and \<open>updatePoll\<close> (the same block in
  both): \<open>Some\<close> message when the action returns there, \<open>None\<close> when it goes on.
\<close>

definition csrf_validation :: "ctx \<Rightarrow> form_data \<Rightarrow> string option" where
  "csrf_validation c formData =
     (case cookies c of
        None \<Rightarrow> Some ''CSRF validation failed.''
      | Some jar \<Rightarrow>
          (let csrfCookie = map_of jar ''csrfToken'';
               csrfField = fd_get formData ''csrfToken''
           in if \<not> truthy csrfCookie \<or> \<not> truthy csrfField \<or> csrfCookie \<noteq> csrfField
              then Some ''Invalid CSRF token.''
              else None))"

definition createPoll :: "ctx \<Rightarrow> store \<Rightarrow> form_data \<Rightarrow> string option \<times> store" where
  "createPoll c s formData =
     (case csrf_validation c formData of
        Some e \<Rightarrow> (Some e, s)
      | None \<Rightarrow>
          (let question = fd_get formData ''question'';
               options = filter (\<lambda>v. v \<noteq> []) (fd_getAll formData ''options'')
           in if \<not> truthy question \<or> length options < 2
              then (Some ''Please provide a question and at least two options.'', s)
              else (case userError (session c) of
                Some e \<Rightarrow> (Some (message e), s)
              | None \<Rightarrow> (case user (session c) of
                  None \<Rightarrow> (Some ''You must be logged in to create a poll.'', s)
                | Some uid \<Rightarrow>
                    (case insert_poll (polls_fault c)
                            \<lparr>pr_id = new_id c, pr_user_id = uid,
                             pr_question = (case question of Some q \<Rightarrow> q | None \<Rightarrow> []),
                             pr_options = Some options, pr_created_at = now c\<rparr> s of
                       (Some e, s') \<Rightarrow> (Some (message e), s')
                     | (None, s') \<Rightarrow> (None, revalidatePath ''/polls'' s'))))))"

text \<open>\<open>getUserPolls\<close> answers \<open>{ polls, error }\<close>, the model the pair.\<close>

definition getUserPolls :: "ctx \<Rightarrow> store \<Rightarrow> poll_row list \<times> string option" where
  "getUserPolls c s =
     (case user (session c) of
        None \<Rightarrow> ([], Some ''Not authenticated'')
      | Some uid \<Rightarrow>
          (let res = select_ordered (polls_fault c)
                       (filter (\<lambda>r. pr_user_id r = uid) (polls s))
           in case error res of
                Some e \<Rightarrow> ([], Some (message e))
              | None \<Rightarrow> ((case data res of Some rows \<Rightarrow> rows | None \<Rightarrow> []), None)))"

text \<open>\<open>getPollById\<close> answers \<open>{ poll, error }\<close>, the model the pair.\<close>

definition getPollById :: "ctx \<Rightarrow> store \<Rightarrow> string \<Rightarrow> poll_row option \<times> string option" where
  "getPollById c s ident =
     (case user (session c) of
        None \<Rightarrow> (None, Some ''Not authenticated'')
      | Some uid \<Rightarrow>
          (let res = single (polls_fault c)
                       (filter (\<lambda>r. pr_id r = ident \<and> pr_user_id r = uid) (polls s))
           in case error res of
                Some e \<Rightarrow> (None, Some (message e))
              | None \<Rightarrow> (data res, None)))"

text \<open>The duplicate-vote lookup of \<open>submitVote\<close>, named so that claims can speak of its answer.\<close>

definition vote_lookup :: "ctx \<Rightarrow> store \<Rightarrow> string \<Rightarrow> identity \<Rightarrow> vote_row response" where
  "vote_lookup c s pollId uid =
     maybeSingle (votes_select_fault c)
       (filter (\<lambda>v. vr_poll_id v = pollId \<and> vr_user_id v = uid) (votes s))"

definition submitVote :: "ctx \<Rightarrow> store \<Rightarrow> string \<Rightarrow> number \<Rightarrow> string option \<times> store" where
  "submitVote c s pollId optionIndex =
     (case user (session c) of
        None \<Rightarrow> (Some ''You must be logged in to vote.'', s)
      | Some uid \<Rightarrow>
          (let pollRes = single (polls_fault c) (filter (\<lambda>r. pr_id r = pollId) (polls s))
           in case error pollRes of
                Some pollErr \<Rightarrow> (Some (message pollErr), s)
              | None \<Rightarrow>
                 (case (case data pollRes of Some poll \<Rightarrow> pr_options poll | None \<Rightarrow> None) of
                    None \<Rightarrow> (Some ''Invalid poll options.'', s)
                  | Some options \<Rightarrow>
                      if js_less optionIndex (Finite 0)
                         \<or> js_greater_eq optionIndex (Finite (of_nat (length options)))
                      then (Some ''Invalid option selected.'', s)
                      else (let lookup = vote_lookup c s pollId uid;
                                existing = data lookup;
                                existingErr = error lookup
                            in case (case existingErr of
                                       Some e \<Rightarrow> if code e \<noteq> ''PGRST116'' then Some (message e) else None
                                     | None \<Rightarrow> None) of
                                 Some m \<Rightarrow> (Some m, s)
                               | None \<Rightarrow>
                                  (case existing of
                                     Some v \<Rightarrow> (Some ''You have already voted on this poll.'', s)
                                   | None \<Rightarrow>
                                      (case insert_vote (votes_insert_fault c)
                                              \<lparr>vr_poll_id = pollId, vr_user_id = uid,
                                               vr_option_index = optionIndex\<rparr> s of
                                         (Some e, s') \<Rightarrow> (Some (message e), s')
                                       | (None, s') \<Rightarrow> (None, s')))))))"

definition deletePoll :: "ctx \<Rightarrow> store \<Rightarrow> string \<Rightarrow> string option \<times> store" where
  "deletePoll c s ident =
     (case user (session c) of
        None \<Rightarrow> (Some ''Not authenticated'', s)
      | Some uid \<Rightarrow>
          (case delete_polls (polls_fault c)
                  (\<lambda>r. pr_id r = ident \<and> pr_user_id r = uid) s of
             (Some e, s') \<Rightarrow> (Some (message e), s')
           | (None, s') \<Rightarrow> (None, revalidatePath ''/polls'' s')))"

definition updatePoll :: "ctx \<Rightarrow> store \<Rightarrow> string \<Rightarrow> form_data \<Rightarrow> string option \<times> store" where
  "updatePoll c s pollId formData =
     (case csrf_validation c formData of
        Some e \<Rightarrow> (Some e, s)
      | None \<Rightarrow>
          (let question = fd_get formData ''question'';
               options = filter (\<lambda>v. v \<noteq> []) (fd_getAll formData ''options'')
           in if \<not> truthy question \<or> length options < 2
              then (Some ''Please provide a question and at least two options.'', s)
              else (case userError (session c) of
                Some e \<Rightarrow> (Some (message e), s)
              | None \<Rightarrow> (case user (session c) of
                  None \<Rightarrow> (Some ''You must be logged in to update a poll.'', s)
                | Some uid \<Rightarrow>
                    (case update_polls (polls_fault c)
                            (\<lambda>r. pr_id r = pollId \<and> pr_user_id r = uid)
                            (\<lambda>r. r\<lparr>pr_question := (case question of Some q \<Rightarrow> q | None \<Rightarrow> []),
                                   pr_options := Some options\<rparr>) s of
                       (Some e, s') \<Rightarrow> (Some (message e), s')
                     | (None, s') \<Rightarrow> (None, s'))))))"

section \<open>The vote table's invariant\<close>


section \<open>Example requests\<close>

text \<open>
  Two identities, stores holding polls and votes of theirs, a request that carries a
  matching token pair, two forms and a backend failure: the concrete inputs at which
  the theorems below are instantiated.
\<close>

definition alice :: identity where
  "alice = ''user-a''"

definition bob :: identity where
  "bob = ''user-b''"

definition request_of :: "identity option \<Rightarrow> ctx" where
  "request_of u = \<lparr>cookies = Some [(''csrfToken'', ''t0k3n'')],
     session = \<lparr>user = u, userError = None\<rparr>,
     polls_fault = None, votes_select_fault = None, votes_insert_fault = None,
     new_id = ''p2'', now = 200\<rparr>"

definition cats_dogs :: poll_row where
  "cats_dogs = \<lparr>pr_id = ''p1'', pr_user_id = alice, pr_question = ''Pet?'',
     pr_options = Some [''Cats'', ''Dogs''], pr_created_at = 100\<rparr>"

definition store1 :: store where
  "store1 = \<lparr>polls = [cats_dogs], votes = [], revalidated = []\<rparr>"

definition edit_form :: form_data where
  "edit_form = [(''csrfToken'', ''t0k3n''), (''question'', ''Q''),
     (''options'', ''a''), (''options'', ''b'')]"

definition gappy_form :: form_data where
  "gappy_form = [(''csrfToken'', ''t0k3n''), (''question'', ''Q''),
     (''options'', ''a''), (''options'', ''''), (''options'', ''b'')]"

definition outage :: backend_error where
  "outage = \<lparr>code = ''08006'', message = ''connection to server at 10.0.0.5 failed''\<rparr>"

definition voted :: store where
  "voted = store1\<lparr>votes :=
     [\<lparr>vr_poll_id = ''p1'', vr_user_id = bob, vr_option_index = Finite 1\<rparr>]\<rparr>"

definition voted_twice :: store where
  "voted_twice = store1\<lparr>votes :=
     [\<lparr>vr_poll_id = ''p1'', vr_user_id = bob, vr_option_index = Finite 1\<rparr>,
      \<lparr>vr_poll_id = ''p1'', vr_user_id = bob, vr_option_index = Finite 0\<rparr>]\<rparr>"

definition voted_thrice :: store where
  "voted_thrice = store1\<lparr>votes :=
     [\<lparr>vr_poll_id = ''p1'', vr_user_id = bob, vr_option_index = Finite 1\<rparr>,
      \<lparr>vr_poll_id = ''p1'', vr_user_id = bob, vr_option_index = Finite 0\<rparr>,
      \<lparr>vr_poll_id = ''p1'', vr_user_id = bob, vr_option_index = Finite 0\<rparr>]\<rparr>"

definition older :: poll_row where
  "older = \<lparr>pr_id = ''p0'', pr_user_id = alice, pr_question = ''Tea?'',
     pr_options = Some [''Yes'', ''No''], pr_created_at = 50\<rparr>"

definition bobs :: poll_row where
  "bobs = \<lparr>pr_id = ''p3'', pr_user_id = bob, pr_question = ''Sea?'',
     pr_options = Some [''Yes'', ''No''], pr_created_at = 70\<rparr>"

definition store3 :: store where
  "store3 = \<lparr>polls = [older, bobs, cats_dogs], votes = [], revalidated = []\<rparr>"

lemmas example_defs =
  alice_def bob_def request_of_def cats_dogs_def store1_def edit_form_def gappy_form_def
  outage_def voted_def voted_twice_def voted_thrice_def older_def bobs_def store3_def

section \<open>Facts about the queries\<close>

text \<open>With unique poll ids, filtering by the id of a stored poll finds that poll alone.\<close>

lemma filter_unique_id:
  "distinct (map pr_id rows) \<Longrightarrow> p \<in> set rows \<Longrightarrow> filter (\<lambda>r. pr_id r = pr_id p) rows = [p]"
proof (induction rows)
  case Nil
  then show ?case by simp
next
  case (Cons r rows)
  show ?case
  proof (cases "r = p")
    case True
    with Cons.prems have "\<forall>x \<in> set rows. pr_id x \<noteq> pr_id p"
      by (auto simp: image_iff)
    then have "filter (\<lambda>r. pr_id r = pr_id p) rows = []"
      by (simp add: filter_empty_conv)
    with True show ?thesis by simp
  next
    case False
    with Cons.prems have "p \<in> set rows" "pr_id r \<noteq> pr_id p" "distinct (map pr_id rows)"
      by (auto simp: image_iff)
    with Cons.IH show ?thesis by simp
  qed
qed

text \<open>The owner-scoped predicate matches no row when the poll of that id is someone else's.\<close>

lemma filter_foreign_empty:
  assumes "distinct (map pr_id rows)" "p \<in> set rows" "pr_user_id p \<noteq> caller"
  shows "filter (\<lambda>r. pr_id r = pr_id p \<and> pr_user_id r = caller) rows = []"
proof -
  have "filter (\<lambda>r. pr_id r = pr_id p \<and> pr_user_id r = caller) rows
        = filter (\<lambda>r. pr_user_id r = caller) (filter (\<lambda>r. pr_id r = pr_id p) rows)"
    by (simp add: conj_commute)
  also have "\<dots> = []"
    using filter_unique_id [OF assms(1,2)] assms(3) by simp
  finally show ?thesis .
qed

lemma single_Nil:
  "single fault ([] :: 'a list) = failed (case fault of Some e \<Rightarrow> e | None \<Rightarrow> PGRST116)"
  by (simp add: single_def split: option.splits)

lemma update_no_match:
  "filter matches (polls s) = [] \<Longrightarrow> update_polls fault matches change s = (fault, s)"
  by (cases fault) (auto simp: update_polls_def filter_empty_conv map_idI)

lemma delete_no_match:
  "filter matches (polls s) = [] \<Longrightarrow> delete_polls fault matches s = (fault, s)"
  by (cases fault) (auto simp: delete_polls_def filter_empty_conv filter_id_conv)

section \<open>What the actions do when the owner-scoped predicate matches no row\<close>

lemma getPollById_no_row:
  assumes "user (session c) = Some caller"
    and "filter (\<lambda>r. pr_id r = ident \<and> pr_user_id r = caller) (polls s) = []"
  shows "getPollById c s ident
         = (None, Some (message (case polls_fault c of Some e \<Rightarrow> e | None \<Rightarrow> PGRST116)))"
  using assms by (simp add: getPollById_def single_Nil failed_def)

lemma deletePoll_no_row:
  assumes "user (session c) = Some caller"
    and "filter (\<lambda>r. pr_id r = ident \<and> pr_user_id r = caller) (polls s) = []"
  shows "deletePoll c s ident
         = (case polls_fault c of
              Some e \<Rightarrow> (Some (message e), s)
            | None \<Rightarrow> (None, revalidatePath ''/polls'' s))"
  using assms by (simp add: deletePoll_def delete_no_match split: option.splits)

lemma updatePoll_no_row:
  assumes "filter (\<lambda>r. pr_id r = pollId \<and> pr_user_id r = caller) (polls s) = []"
    and "user (session c) = Some caller"
  shows "snd (updatePoll c s pollId fd) = s"
  using assms by (simp add: updatePoll_def Let_def update_no_match split: option.splits)

lemma updatePoll_accepts:
  assumes "csrf_validation c fd = None" "truthy (fd_get fd ''question'')"
    "2 \<le> length (filter (\<lambda>v. v \<noteq> []) (fd_getAll fd ''options''))"
    "userError (session c) = None" "user (session c) = Some caller" "polls_fault c = None"
  shows "fst (updatePoll c s pollId fd) = None"
  using assms by (simp add: updatePoll_def Let_def update_polls_def)

section \<open>The anti-forgery check\<close>

text \<open>
  The check rejects exactly the requests whose cookie jar is unavailable, whose
  \<open>csrfToken\<close> cookie or field is absent or empty, or whose two values differ; and
  \<open>createPoll\<close> and \<open>updatePoll\<close> return its message with the store untouched.
\<close>

lemma csrf_validation_None_iff:
  "csrf_validation c fd = None \<longleftrightarrow>
     (\<exists>jar t. cookies c = Some jar \<and> map_of jar ''csrfToken'' = Some t
              \<and> fd_get fd ''csrfToken'' = Some t \<and> t \<noteq> [])"
proof (cases "cookies c")
  case None
  then show ?thesis by (simp add: csrf_validation_def)
next
  case (Some jar)
  show ?thesis
  proof (cases "map_of jar ''csrfToken''")
    case None
    with Some show ?thesis by (simp add: csrf_validation_def)
  next
    case cookie: (Some t)
    with Some show ?thesis
      by (cases "fd_get fd ''csrfToken''") (auto simp: csrf_validation_def)
  qed
qed

lemma createPoll_csrf_fail_closed:
  "csrf_validation c fd = Some e \<Longrightarrow> createPoll c s fd = (Some e, s)"
  by (simp add: createPoll_def)

lemma updatePoll_csrf_fail_closed:
  "csrf_validation c fd = Some e \<Longrightarrow> updatePoll c s pollId fd = (Some e, s)"
  by (simp add: updatePoll_def)

text \<open>
  Claim C1 (the part the code breaks). C1 asks every mutating poll operation to return
  \<open>CsrfValidationFailed\<close> and to leave storage alone when the \<open>csrfToken\<close> cookie is
  missing. \<open>deletePoll\<close> makes no token check: called by the owner in a request that
  carries no \<open>csrfToken\<close> cookie at all, it deletes the poll and answers
  \<open>{ error: null }\<close>.
\<close>

theorem deletePoll_skips_csrf_validation:
  "deletePoll ((request_of (Some alice))\<lparr>cookies := Some []\<rparr>) store1 ''p1''
     = (None, \<lparr>polls = [], votes = [], revalidated = [''/polls'']\<rparr>)"
  by (simp add: deletePoll_def delete_polls_def revalidatePath_def example_defs)

section \<open>Ownership\<close>

text \<open>
  Claim C2, as amended. Let \<open>A\<close> and \<open>B\<close> be distinct identities and \<open>p\<close> a stored
  poll owned by \<open>A\<close>, poll ids being unique. Called with identity \<open>B\<close> on \<open>p\<close>'s id:
  \<open>getPollById\<close> answers an error and no poll data; \<open>updatePoll\<close> leaves the whole
  store as it was; \<open>deletePoll\<close> leaves both tables as they were, so no row owned by \<open>A\<close>
  is modified or deleted. Neither mutation reports the miss: \<open>deletePoll\<close> answers
  \<open>{ error: null }\<close> whenever the storage call does not fail, and so does \<open>updatePoll\<close>
  when, besides, the token pair, the input and the session pass its earlier checks.
\<close>

theorem ownership_isolation:
  assumes "user (session c) = Some B" and "p \<in> set (polls s)" and "pr_user_id p = A"
    and "A \<noteq> B" and "distinct (map pr_id (polls s))"
  shows "fst (getPollById c s (pr_id p)) = None \<and> snd (getPollById c s (pr_id p)) \<noteq> None
       \<and> snd (updatePoll c s (pr_id p) fd) = s
       \<and> polls (snd (deletePoll c s (pr_id p))) = polls s
       \<and> votes (snd (deletePoll c s (pr_id p))) = votes s
       \<and> (polls_fault c = None \<longrightarrow> fst (deletePoll c s (pr_id p)) = None)
       \<and> (polls_fault c = None \<and> csrf_validation c fd = None \<and> truthy (fd_get fd ''question'')
            \<and> 2 \<le> length (filter (\<lambda>v. v \<noteq> []) (fd_getAll fd ''options''))
            \<and> userError (session c) = None
          \<longrightarrow> fst (updatePoll c s (pr_id p) fd) = None)"
proof -
  have none: "filter (\<lambda>r. pr_id r = pr_id p \<and> pr_user_id r = B) (polls s) = []"
    using assms by (intro filter_foreign_empty) auto
  have g: "fst (getPollById c s (pr_id p)) = None \<and> snd (getPollById c s (pr_id p)) \<noteq> None"
    by (simp add: getPollById_no_row [OF assms(1) none])
  have u: "snd (updatePoll c s (pr_id p) fd) = s"
    by (rule updatePoll_no_row [OF none assms(1)])
  have d: "polls (snd (deletePoll c s (pr_id p))) = polls s
           \<and> votes (snd (deletePoll c s (pr_id p))) = votes s
           \<and> (polls_fault c = None \<longrightarrow> fst (deletePoll c s (pr_id p)) = None)"
    by (simp add: deletePoll_no_row [OF assms(1) none] revalidatePath_def split: option.splits)
  have a: "polls_fault c = None \<and> csrf_validation c fd = None \<and> truthy (fd_get fd ''question'')
            \<and> 2 \<le> length (filter (\<lambda>v. v \<noteq> []) (fd_getAll fd ''options''))
            \<and> userError (session c) = None
          \<longrightarrow> fst (updatePoll c s (pr_id p) fd) = None"
    using updatePoll_accepts [of c fd B s "pr_id p"] assms(1) by simp
  from g u d a show ?thesis by simp
qed

text \<open>
  The amended C2 at a concrete input: \<open>bob\<close> reads, edits and deletes \<open>alice\<close>'s poll
  \<open>p1\<close>.
\<close>

theorem ownership_isolation_witness:
  "user (session (request_of (Some bob))) = Some bob \<and> cats_dogs \<in> set (polls store1)
   \<and> pr_user_id cats_dogs = alice \<and> alice \<noteq> bob \<and> distinct (map pr_id (polls store1))
   \<and> fst (getPollById (request_of (Some bob)) store1 ''p1'') = None
   \<and> snd (getPollById (request_of (Some bob)) store1 ''p1'') \<noteq> None
   \<and> snd (updatePoll (request_of (Some bob)) store1 ''p1'' edit_form) = store1
   \<and> polls (snd (deletePoll (request_of (Some bob)) store1 ''p1'')) = polls store1
   \<and> fst (deletePoll (request_of (Some bob)) store1 ''p1'') = None
   \<and> fst (updatePoll (request_of (Some bob)) store1 ''p1'' edit_form) = None"
  using ownership_isolation [of "request_of (Some bob)" bob cats_dogs store1 alice edit_form]
  by (simp add: example_defs csrf_validation_def fd_get_def fd_getAll_def)

text \<open>
  C2 as stated fails: \<open>bob\<close>'s \<open>updatePoll\<close> and \<open>deletePoll\<close> on \<open>alice\<close>'s poll
  answer \<open>{ error: null }\<close>, not a \<open>NotFound\<close> error.
\<close>

theorem foreign_mutation_answers_success:
  "fst (updatePoll (request_of (Some bob)) store1 ''p1'' edit_form) = None
   \<and> fst (deletePoll (request_of (Some bob)) store1 ''p1'') = None"
  by (simp add: updatePoll_def deletePoll_def csrf_validation_def fd_get_def fd_getAll_def
      update_polls_def delete_polls_def revalidatePath_def example_defs)

text \<open>
  Claim C3. For an authenticated caller, \<open>getPollById\<close> on an id that no stored poll has
  (store \<open>s1\<close>) and \<open>getPollById\<close> on the id of a stored poll owned by someone else
  (store \<open>s2\<close>, poll ids unique) give the same answer in the same request context, and
  that answer carries an error and no poll data.
\<close>

theorem getPollById_anti_enumeration:
  assumes "user (session c) = Some caller"
    and "\<forall>r \<in> set (polls s1). pr_id r \<noteq> ident"
    and "p \<in> set (polls s2)" and "pr_id p = ident" and "pr_user_id p \<noteq> caller"
    and "distinct (map pr_id (polls s2))"
  shows "getPollById c s1 ident = getPollById c s2 ident
       \<and> fst (getPollById c s1 ident) = None \<and> snd (getPollById c s1 ident) \<noteq> None"
proof -
  have absent: "filter (\<lambda>r. pr_id r = ident \<and> pr_user_id r = caller) (polls s1) = []"
    using assms(2) by (simp add: filter_empty_conv)
  have foreign: "filter (\<lambda>r. pr_id r = ident \<and> pr_user_id r = caller) (polls s2) = []"
    using filter_foreign_empty [OF assms(6) assms(3) assms(5)] assms(4) by simp
  show ?thesis
    by (simp add: getPollById_no_row [OF assms(1) absent] getPollById_no_row [OF assms(1) foreign])
qed

text \<open>C3 at a concrete input: \<open>bob\<close> asks for \<open>p1\<close> in the empty store and in \<open>store1\<close>.\<close>

theorem getPollById_anti_enumeration_witness:
  "user (session (request_of (Some bob))) = Some bob
   \<and> polls (store1\<lparr>polls := []\<rparr>) = []
   \<and> cats_dogs \<in> set (polls store1) \<and> pr_id cats_dogs = ''p1'' \<and> pr_user_id cats_dogs \<noteq> bob
   \<and> distinct (map pr_id (polls store1))
   \<and> getPollById (request_of (Some bob)) (store1\<lparr>polls := []\<rparr>) ''p1''
       = getPollById (request_of (Some bob)) store1 ''p1''
   \<and> fst (getPollById (request_of (Some bob)) (store1\<lparr>polls := []\<rparr>) ''p1'') = None"
  using getPollById_anti_enumeration
          [of "request_of (Some bob)" bob "store1\<lparr>polls := []\<rparr>" "''p1''" cats_dogs store1]
  by (simp add: example_defs getPollById_def single_def failed_def)

text \<open>
  Claim C4, as amended. For an authenticated caller, \<open>deletePoll\<close> with an id that
  matches no row under the combined predicate (id equals the argument and owner equals
  the caller) answers the success acknowledgment \<open>{ error: null }\<close> when the storage
  call does not fail, and leaves both tables as they were.
\<close>

theorem deletePoll_zero_rows:
  assumes "user (session c) = Some caller"
    and "\<forall>r \<in> set (polls s). \<not> (pr_id r = ident \<and> pr_user_id r = caller)"
    and "polls_fault c = None"
  shows "fst (deletePoll c s ident) = None
       \<and> polls (snd (deletePoll c s ident)) = polls s
       \<and> votes (snd (deletePoll c s ident)) = votes s"
proof -
  have "filter (\<lambda>r. pr_id r = ident \<and> pr_user_id r = caller) (polls s) = []"
    using assms(2) by (simp add: filter_empty_conv)
  from deletePoll_no_row [OF assms(1) this] assms(3) show ?thesis
    by (simp add: revalidatePath_def)
qed

text \<open>The amended C4 at a concrete input: \<open>bob\<close> deletes \<open>alice\<close>'s poll \<open>p1\<close>.\<close>

theorem deletePoll_zero_rows_witness:
  "user (session (request_of (Some bob))) = Some bob
   \<and> filter (\<lambda>r. pr_id r = ''p1'' \<and> pr_user_id r = bob) (polls store1) = []
   \<and> polls_fault (request_of (Some bob)) = None
   \<and> fst (deletePoll (request_of (Some bob)) store1 ''p1'') = None
   \<and> polls (snd (deletePoll (request_of (Some bob)) store1 ''p1'')) = polls store1"
  using deletePoll_zero_rows [of "request_of (Some bob)" bob store1 "''p1''"]
  by (simp add: example_defs)

text \<open>
  C4 as stated fails: \<open>alice\<close>'s \<open>deletePoll\<close> of an id that no poll has answers
  \<open>{ error: null }\<close>.
\<close>

theorem deletePoll_absent_id_answers_success:
  "fst (deletePoll (request_of (Some alice)) store1 ''no-such-poll'') = None"
  by (simp add: deletePoll_def delete_polls_def revalidatePath_def example_defs)

section \<open>Creation\<close>

text \<open>
  Claim C5, as amended. Given a token pair that passes the anti-forgery check,
  \<open>createPoll\<close> answers the validation error, with the store untouched, when the
  question is absent or empty or when fewer than two non-empty option entries are
  supplied; empty option entries are dropped, not rejected. When the question is
  non-empty, at least two non-empty option entries are supplied, the identity provider
  resolves the caller without error and the insert does not fail, \<open>createPoll\<close>
  succeeds and appends a poll whose owner is the calling identity and whose options are
  the non-empty entries, in order.
\<close>

theorem createPoll_validation:
  assumes "csrf_validation c fd = None"
  shows "(\<not> truthy (fd_get fd ''question'')
            \<or> length (filter (\<lambda>v. v \<noteq> []) (fd_getAll fd ''options'')) < 2
          \<longrightarrow> createPoll c s fd
                = (Some ''Please provide a question and at least two options.'', s))
       \<and> (fd_get fd ''question'' = Some q \<and> q \<noteq> []
            \<and> 2 \<le> length (filter (\<lambda>v. v \<noteq> []) (fd_getAll fd ''options''))
            \<and> user (session c) = Some caller \<and> userError (session c) = None
            \<and> polls_fault c = None
          \<longrightarrow> fst (createPoll c s fd) = None
              \<and> polls (snd (createPoll c s fd))
                  = polls s @ [\<lparr>pr_id = new_id c, pr_user_id = caller, pr_question = q,
                       pr_options = Some (filter (\<lambda>v. v \<noteq> []) (fd_getAll fd ''options'')),
                       pr_created_at = now c\<rparr>])"
  using assms
  by (auto simp: createPoll_def Let_def insert_poll_def revalidatePath_def)

text \<open>
  The amended C5 at concrete inputs: \<open>options = ["only one"]\<close> is refused,
  \<open>options = ["a", "b"]\<close> creates a poll owned by the caller.
\<close>

theorem createPoll_validation_witness:
  "csrf_validation (request_of (Some bob)) edit_form = None
   \<and> createPoll (request_of (Some bob)) store1
        [(''csrfToken'', ''t0k3n''), (''question'', ''Q''), (''options'', ''only one'')]
      = (Some ''Please provide a question and at least two options.'', store1)
   \<and> fst (createPoll (request_of (Some bob)) store1 edit_form) = None
   \<and> polls (snd (createPoll (request_of (Some bob)) store1 edit_form))
      = polls store1 @ [\<lparr>pr_id = ''p2'', pr_user_id = bob, pr_question = ''Q'',
                          pr_options = Some [''a'', ''b''], pr_created_at = 200\<rparr>]"
  using createPoll_validation [where c = "request_of (Some bob)" and fd = edit_form
          and q = "''Q''" and caller = bob and s = store1]
    createPoll_validation [where c = "request_of (Some bob)" and s = store1
          and q = "''Q''" and caller = bob
          and fd = "[(''csrfToken'', ''t0k3n''), (''question'', ''Q''), (''options'', ''only one'')]"]
  by (simp add: csrf_validation_def fd_get_def fd_getAll_def example_defs)

text \<open>
  C5 as stated fails twice. A form with an empty option entry among \<open>a\<close> and \<open>b\<close> is
  accepted, the empty entry dropped; and a form with an empty question but no token is
  answered with the anti-forgery error, not the validation error.
\<close>

theorem createPoll_drops_empty_option:
  "createPoll (request_of (Some bob)) store1 gappy_form
     = (None, \<lparr>polls = [cats_dogs,
                  \<lparr>pr_id = ''p2'', pr_user_id = bob, pr_question = ''Q'',
                   pr_options = Some [''a'', ''b''], pr_created_at = 200\<rparr>],
               votes = [], revalidated = [''/polls'']\<rparr>)
   \<and> fst (createPoll (request_of (Some bob)) store1 [(''question'', []), (''options'', ''a'')])
     = Some ''Invalid CSRF token.''"
  by (simp add: createPoll_def csrf_validation_def fd_get_def fd_getAll_def insert_poll_def
      revalidatePath_def example_defs)

section \<open>Voting\<close>

text \<open>
  \<open>submitVote\<close> once the caller is resolved and the poll fetched: the bounds test, then
  the lookup, then the insert.
\<close>

lemma submitVote_fetched:
  assumes "user (session c) = Some uid"
    and "filter (\<lambda>r. pr_id r = pollId) (polls s) = [p]"
    and "pr_options p = Some opts"
    and "polls_fault c = None"
  shows "submitVote c s pollId i =
     (if js_less i (Finite 0) \<or> js_greater_eq i (Finite (of_nat (length opts)))
      then (Some ''Invalid option selected.'', s)
      else (case error (vote_lookup c s pollId uid) of
              Some e \<Rightarrow>
                if code e \<noteq> ''PGRST116'' then (Some (message e), s)
                else (case data (vote_lookup c s pollId uid) of
                        Some v \<Rightarrow> (Some ''You have already voted on this poll.'', s)
                      | None \<Rightarrow> (case votes_insert_fault c of
                            Some e' \<Rightarrow> (Some (message e'), s)
                          | None \<Rightarrow> (None, s\<lparr>votes := votes s @
                              [\<lparr>vr_poll_id = pollId, vr_user_id = uid, vr_option_index = i\<rparr>]\<rparr>)))
            | None \<Rightarrow>
                (case data (vote_lookup c s pollId uid) of
                   Some v \<Rightarrow> (Some ''You have already voted on this poll.'', s)
                 | None \<Rightarrow> (case votes_insert_fault c of
                       Some e' \<Rightarrow> (Some (message e'), s)
                     | None \<Rightarrow> (None, s\<lparr>votes := votes s @
                         [\<lparr>vr_poll_id = pollId, vr_user_id = uid, vr_option_index = i\<rparr>]\<rparr>)))))"
  using assms
  by (simp add: submitVote_def single_def Let_def insert_vote_def split: option.splits)

lemma submitVote_fault:
  assumes "user (session c) = Some uid" and "polls_fault c = Some e"
  shows "submitVote c s pollId i = (Some (message e), s)"
  using assms by (simp add: submitVote_def single_def failed_def)

text \<open>
  On integral indices the bounds test does what it is there for: for an authenticated
  caller and a stored poll (ids unique) with \<open>n\<close> options, \<open>submitVote\<close> with the
  integer \<open>k\<close> succeeds only when \<open>0 \<le> k \<le> n - 1\<close>, and, the poll being fetched,
  \<open>-1\<close> and \<open>n\<close> are answered with the invalid-option error, the store left as it was.
\<close>

lemma submitVote_bounds_integral:
  assumes "user (session c) = Some uid"
    and "p \<in> set (polls s)" and "distinct (map pr_id (polls s))"
    and "pr_options p = Some opts"
  shows "(fst (submitVote c s (pr_id p) (Finite (of_int k))) = None
            \<longrightarrow> 0 \<le> k \<and> k \<le> int (length opts) - 1)
       \<and> (polls_fault c = None \<longrightarrow>
            submitVote c s (pr_id p) (Finite (- 1)) = (Some ''Invalid option selected.'', s)
          \<and> submitVote c s (pr_id p) (Finite (of_nat (length opts)))
              = (Some ''Invalid option selected.'', s))"
proof -
  have row: "filter (\<lambda>r. pr_id r = pr_id p) (polls s) = [p]"
    using assms(3,2) by (rule filter_unique_id)
  have upper: "(of_int k :: rat) < of_nat (length opts) \<longleftrightarrow> k < int (length opts)"
    by (metis of_int_less_iff of_int_of_nat_eq)
  have only: "fst (submitVote c s (pr_id p) (Finite (of_int k))) = None
            \<longrightarrow> 0 \<le> k \<and> k \<le> int (length opts) - 1"
  proof (cases "polls_fault c")
    case None
    show ?thesis
      using upper
      by (auto simp: submitVote_fetched [OF assms(1) row assms(4) None] js_greater_eq_def
          not_less [symmetric])
  next
    case (Some e)
    show ?thesis by (simp add: submitVote_fault [OF assms(1) Some])
  qed
  have edges: "polls_fault c = None \<longrightarrow>
            submitVote c s (pr_id p) (Finite (- 1)) = (Some ''Invalid option selected.'', s)
          \<and> submitVote c s (pr_id p) (Finite (of_nat (length opts)))
              = (Some ''Invalid option selected.'', s)"
    by (simp add: submitVote_fetched [OF assms(1) row assms(4)] js_greater_eq_def)
  from only edges show ?thesis by simp
qed

text \<open>
  Claim C6 (the part the code breaks). C6 lets \<open>submitVote\<close> succeed only for an
  \<open>optionIndex\<close> in \<open>[0, n - 1]\<close>. The test \<open>optionIndex < 0 || optionIndex >= n\<close> is
  false for \<open>NaN\<close> and for \<open>1.5\<close> on the two-option poll \<open>p1\<close>, neither of which is in
  \<open>[0, 1]\<close>: both calls go on to the insert and answer \<open>{ error: null }\<close>.
\<close>

theorem submitVote_accepts_non_index:
  "submitVote (request_of (Some bob)) store1 ''p1'' NaN
     = (None, store1\<lparr>votes :=
          [\<lparr>vr_poll_id = ''p1'', vr_user_id = bob, vr_option_index = NaN\<rparr>]\<rparr>)
   \<and> submitVote (request_of (Some bob)) store1 ''p1'' (Finite (3 / 2))
     = (None, store1\<lparr>votes :=
          [\<lparr>vr_poll_id = ''p1'', vr_user_id = bob, vr_option_index = Finite (3 / 2)\<rparr>]\<rparr>)"
  by (simp add: submitVote_def single_def vote_lookup_def maybeSingle_def insert_vote_def
      js_greater_eq_def example_defs)

text \<open>
  A lookup that fails carries no row; a lookup that does not fail has met at most one
  row, and that row is its answer.
\<close>

lemma vote_lookup_error_data:
  "error (vote_lookup c s pollId uid) = Some e \<Longrightarrow> data (vote_lookup c s pollId uid) = None"
  by (auto simp: vote_lookup_def maybeSingle_def failed_def split: option.splits list.splits)







text \<open>
  Claim C10. In \<open>submitVote\<close>, past the bounds test: when the duplicate-vote lookup
  fails with the error code \<open>PGRST116\<close>, the error is ignored and taken as no existing
  vote, and the insert proceeds (the vote is appended, or the insert's own error
  returned); when the lookup fails with any other code, \<open>submitVote\<close> returns that
  error's message and the store is left as it was.
\<close>

theorem submitVote_lookup_failure:
  assumes "user (session c) = Some uid" and "polls_fault c = None"
    and "p \<in> set (polls s)" and "distinct (map pr_id (polls s))"
    and "pr_options p = Some opts"
    and "\<not> js_less i (Finite 0)" and "\<not> js_greater_eq i (Finite (of_nat (length opts)))"
    and "error (vote_lookup c s (pr_id p) uid) = Some e"
  shows "(code e = ''PGRST116'' \<and> votes_insert_fault c = None \<longrightarrow>
            submitVote c s (pr_id p) i
              = (None, s\<lparr>votes := votes s @
                   [\<lparr>vr_poll_id = pr_id p, vr_user_id = uid, vr_option_index = i\<rparr>]\<rparr>))
       \<and> (code e = ''PGRST116'' \<and> votes_insert_fault c = Some e' \<longrightarrow>
            submitVote c s (pr_id p) i = (Some (message e'), s))
       \<and> (code e \<noteq> ''PGRST116'' \<longrightarrow> submitVote c s (pr_id p) i = (Some (message e), s))"
proof -
  have row: "filter (\<lambda>r. pr_id r = pr_id p) (polls s) = [p]"
    using assms(4,3) by (rule filter_unique_id)
  have nodata: "data (vote_lookup c s (pr_id p) uid) = None"
    using assms(8) by (rule vote_lookup_error_data)
  show ?thesis
    using assms(6,7)
    by (simp add: submitVote_fetched [OF assms(1) row assms(5) assms(2)] assms(8) nodata)
qed

text \<open>
  C10 at concrete inputs: a lookup that meets two votes of \<open>bob\<close> on \<open>p1\<close> fails with
  \<open>PGRST116\<close> and a third vote is inserted; a lookup that fails with the code of
  \<open>outage\<close> aborts the call.
\<close>

theorem submitVote_lookup_failure_witness:
  "error (vote_lookup (request_of (Some bob)) voted_twice ''p1'' bob) = Some PGRST116
   \<and> submitVote (request_of (Some bob)) voted_twice ''p1'' (Finite 0)
       = (None, voted_twice\<lparr>votes := votes voted_twice @
            [\<lparr>vr_poll_id = ''p1'', vr_user_id = bob, vr_option_index = Finite 0\<rparr>]\<rparr>)
   \<and> error (vote_lookup ((request_of (Some bob))\<lparr>votes_select_fault := Some outage\<rparr>)
              voted ''p1'' bob)
       = Some outage
   \<and> submitVote ((request_of (Some bob))\<lparr>votes_select_fault := Some outage\<rparr>) voted
        ''p1'' (Finite 0)
       = (Some (message outage), voted)"
  using submitVote_lookup_failure [where c = "request_of (Some bob)" and uid = bob
      and p = cats_dogs and s = voted_twice and opts = "[''Cats'', ''Dogs'']"
      and i = "Finite 0" and e = PGRST116]
    submitVote_lookup_failure
      [where c = "(request_of (Some bob))\<lparr>votes_select_fault := Some outage\<rparr>"
      and uid = bob and p = cats_dogs and s = voted and opts = "[''Cats'', ''Dogs'']"
      and i = "Finite 0" and e = outage]
  by (simp add: example_defs vote_lookup_def maybeSingle_def failed_def PGRST116_def
      js_greater_eq_def)

section \<open>Listing\<close>

lemma order_desc_mset: "mset (order_desc rows) = mset rows"
  by (simp add: order_desc_def)

lemma order_desc_sorted:
  "sorted_wrt (\<lambda>a b. pr_created_at b \<le> pr_created_at a) (order_desc rows)"
proof -
  have "sorted (map (\<lambda>r. - pr_created_at r) (order_desc rows))"
    unfolding order_desc_def by (rule sorted_sort_key)
  then show ?thesis by (simp add: sorted_map)
qed

lemma getUserPolls_ok:
  assumes "user (session c) = Some caller" and "polls_fault c = None"
  shows "getUserPolls c s = (order_desc (filter (\<lambda>r. pr_user_id r = caller) (polls s)), None)"
  using assms by (simp add: getUserPolls_def select_ordered_def)

text \<open>
  Claim C8, as amended. When the caller's identity is absent, \<open>getUserPolls\<close> answers
  the empty sequence together with the error \<open>Not authenticated\<close>. When the caller is
  authenticated and the query does not fail, it answers without error exactly the polls
  whose owner is the caller (as a multiset), ordered by creation time descending; and
  the empty sequence, without error, when the caller owns no poll.
\<close>

theorem getUserPolls_owned_newest_first:
  "(user (session c) = None \<longrightarrow> getUserPolls c s = ([], Some ''Not authenticated''))
   \<and> (user (session c) = Some caller \<and> polls_fault c = None \<longrightarrow>
        snd (getUserPolls c s) = None
      \<and> mset (fst (getUserPolls c s)) = mset (filter (\<lambda>r. pr_user_id r = caller) (polls s))
      \<and> sorted_wrt (\<lambda>a b. pr_created_at b \<le> pr_created_at a) (fst (getUserPolls c s))
      \<and> (filter (\<lambda>r. pr_user_id r = caller) (polls s) = [] \<longrightarrow> getUserPolls c s = ([], None)))"
proof -
  have anon: "user (session c) = None \<longrightarrow> getUserPolls c s = ([], Some ''Not authenticated'')"
    by (simp add: getUserPolls_def)
  have own: "user (session c) = Some caller \<and> polls_fault c = None \<longrightarrow>
        snd (getUserPolls c s) = None
      \<and> mset (fst (getUserPolls c s)) = mset (filter (\<lambda>r. pr_user_id r = caller) (polls s))
      \<and> sorted_wrt (\<lambda>a b. pr_created_at b \<le> pr_created_at a) (fst (getUserPolls c s))
      \<and> (filter (\<lambda>r. pr_user_id r = caller) (polls s) = [] \<longrightarrow> getUserPolls c s = ([], None))"
  proof (intro impI, elim conjE)
    assume u: "user (session c) = Some caller" and f: "polls_fault c = None"
    show "snd (getUserPolls c s) = None
      \<and> mset (fst (getUserPolls c s)) = mset (filter (\<lambda>r. pr_user_id r = caller) (polls s))
      \<and> sorted_wrt (\<lambda>a b. pr_created_at b \<le> pr_created_at a) (fst (getUserPolls c s))
      \<and> (filter (\<lambda>r. pr_user_id r = caller) (polls s) = [] \<longrightarrow> getUserPolls c s = ([], None))"
      unfolding getUserPolls_ok [OF u f]
      by (simp add: order_desc_mset order_desc_sorted) (simp add: order_desc_def)
  qed
  from anon own show ?thesis by simp
qed

text \<open>
  The amended C8 at concrete inputs: an anonymous caller, \<open>alice\<close> with her two polls
  (the newer first), and a caller who owns none.
\<close>

theorem getUserPolls_owned_newest_first_witness:
  "getUserPolls (request_of None) store3 = ([], Some ''Not authenticated'')
   \<and> getUserPolls (request_of (Some alice)) store3 = ([cats_dogs, older], None)
   \<and> getUserPolls (request_of (Some ''user-c'')) store3 = ([], None)"
  using getUserPolls_owned_newest_first [of "request_of None" store3 alice]
    getUserPolls_owned_newest_first [of "request_of (Some alice)" store3 alice]
    getUserPolls_owned_newest_first [of "request_of (Some ''user-c'')" store3 "''user-c''"]
  by (simp add: example_defs getUserPolls_def select_ordered_def order_desc_def)

text \<open>
  C8 as stated fails: without an identity the answer carries the error
  \<open>Not authenticated\<close>; it is not a success result.
\<close>

theorem getUserPolls_anonymous_is_error:
  "snd (getUserPolls (request_of None) store3) = Some ''Not authenticated''"
  by (simp add: getUserPolls_def example_defs)

section \<open>Backend failures\<close>

text \<open>
  Claim C9, as amended. A failure of the identity provider or of the storage layer that
  an action inspects is returned to the caller as the backend error's \<open>message\<close>,
  verbatim, with the store left as it was: \<open>createPoll\<close> and \<open>updatePoll\<close> return the
  message of the identity provider's error and of their insert's or update's error;
  \<open>getUserPolls\<close>, \<open>getPollById\<close>, \<open>deletePoll\<close> and \<open>submitVote\<close> return the message
  of their query on the polls table; \<open>submitVote\<close> returns, besides, the message of a
  failed lookup (unless its code is \<open>PGRST116\<close>) and of a failed insert.
\<close>

theorem backend_error_message_forwarded:
  "(csrf_validation c fd = None \<and> truthy (fd_get fd ''question'')
      \<and> 2 \<le> length (filter (\<lambda>v. v \<noteq> []) (fd_getAll fd ''options''))
      \<and> userError (session c) = Some e
    \<longrightarrow> createPoll c s fd = (Some (message e), s)
        \<and> updatePoll c s pollId fd = (Some (message e), s))
   \<and> (csrf_validation c fd = None \<and> truthy (fd_get fd ''question'')
      \<and> 2 \<le> length (filter (\<lambda>v. v \<noteq> []) (fd_getAll fd ''options''))
      \<and> userError (session c) = None \<and> user (session c) = Some uid \<and> polls_fault c = Some e
    \<longrightarrow> createPoll c s fd = (Some (message e), s)
        \<and> updatePoll c s pollId fd = (Some (message e), s))
   \<and> (user (session c) = Some uid \<and> polls_fault c = Some e
    \<longrightarrow> getUserPolls c s = ([], Some (message e))
        \<and> getPollById c s pollId = (None, Some (message e))
        \<and> deletePoll c s pollId = (Some (message e), s)
        \<and> submitVote c s pollId i = (Some (message e), s))
   \<and> (user (session c) = Some uid \<and> polls_fault c = None
        \<and> filter (\<lambda>r. pr_id r = pollId) (polls s) = [p] \<and> pr_options p = Some opts
        \<and> \<not> js_less i (Finite 0) \<and> \<not> js_greater_eq i (Finite (of_nat (length opts)))
    \<longrightarrow> (votes_select_fault c = Some e \<and> code e \<noteq> ''PGRST116''
           \<longrightarrow> submitVote c s pollId i = (Some (message e), s))
        \<and> (votes_select_fault c = None \<and> votes_insert_fault c = Some e
             \<and> filter (\<lambda>v. vr_poll_id v = pollId \<and> vr_user_id v = uid) (votes s) = []
           \<longrightarrow> submitVote c s pollId i = (Some (message e), s)))"
proof -
  have idp: "csrf_validation c fd = None \<and> truthy (fd_get fd ''question'')
      \<and> 2 \<le> length (filter (\<lambda>v. v \<noteq> []) (fd_getAll fd ''options''))
      \<and> userError (session c) = Some e
    \<longrightarrow> createPoll c s fd = (Some (message e), s)
        \<and> updatePoll c s pollId fd = (Some (message e), s)"
    by (simp add: createPoll_def updatePoll_def Let_def)
  have mutation: "csrf_validation c fd = None \<and> truthy (fd_get fd ''question'')
      \<and> 2 \<le> length (filter (\<lambda>v. v \<noteq> []) (fd_getAll fd ''options''))
      \<and> userError (session c) = None \<and> user (session c) = Some uid \<and> polls_fault c = Some e
    \<longrightarrow> createPoll c s fd = (Some (message e), s)
        \<and> updatePoll c s pollId fd = (Some (message e), s)"
    by (simp add: createPoll_def updatePoll_def Let_def insert_poll_def update_polls_def)
  have query: "user (session c) = Some uid \<and> polls_fault c = Some e
    \<longrightarrow> getUserPolls c s = ([], Some (message e))
        \<and> getPollById c s pollId = (None, Some (message e))
        \<and> deletePoll c s pollId = (Some (message e), s)
        \<and> submitVote c s pollId i = (Some (message e), s)"
    by (simp add: getUserPolls_def getPollById_def deletePoll_def submitVote_fault
        select_ordered_def single_def delete_polls_def failed_def)
  have vote: "user (session c) = Some uid \<and> polls_fault c = None
        \<and> filter (\<lambda>r. pr_id r = pollId) (polls s) = [p] \<and> pr_options p = Some opts
        \<and> \<not> js_less i (Finite 0) \<and> \<not> js_greater_eq i (Finite (of_nat (length opts)))
    \<longrightarrow> (votes_select_fault c = Some e \<and> code e \<noteq> ''PGRST116''
           \<longrightarrow> submitVote c s pollId i = (Some (message e), s))
        \<and> (votes_select_fault c = None \<and> votes_insert_fault c = Some e
             \<and> filter (\<lambda>v. vr_poll_id v = pollId \<and> vr_user_id v = uid) (votes s) = []
           \<longrightarrow> submitVote c s pollId i = (Some (message e), s))"
    by (auto simp: submitVote_fetched vote_lookup_def maybeSingle_def failed_def)
  from idp mutation query vote show ?thesis by simp
qed

text \<open>
  The amended C9 at concrete inputs: the identity provider, the polls table and the
  vote insert fail in turn with \<open>outage\<close>.
\<close>

theorem backend_error_message_forwarded_witness:
  "createPoll ((request_of None)\<lparr>session := \<lparr>user = None, userError = Some outage\<rparr>\<rparr>)
      store1 edit_form = (Some (message outage), store1)
   \<and> updatePoll ((request_of (Some alice))\<lparr>polls_fault := Some outage\<rparr>) store1 ''p1'' edit_form
       = (Some (message outage), store1)
   \<and> getPollById ((request_of (Some alice))\<lparr>polls_fault := Some outage\<rparr>) store1 ''p1''
       = (None, Some (message outage))
   \<and> deletePoll ((request_of (Some alice))\<lparr>polls_fault := Some outage\<rparr>) store1 ''p1''
       = (Some (message outage), store1)
   \<and> submitVote ((request_of (Some bob))\<lparr>votes_insert_fault := Some outage\<rparr>) store1
        ''p1'' (Finite 1)
       = (Some (message outage), store1)"
  using backend_error_message_forwarded
      [where c = "(request_of None)\<lparr>session := \<lparr>user = None, userError = Some outage\<rparr>\<rparr>"
      and fd = edit_form and e = outage and s = store1]
    backend_error_message_forwarded
      [where c = "(request_of (Some alice))\<lparr>polls_fault := Some outage\<rparr>"
      and fd = edit_form and e = outage and s = store1 and uid = alice and pollId = "''p1''"]
    backend_error_message_forwarded
      [where c = "(request_of (Some bob))\<lparr>votes_insert_fault := Some outage\<rparr>"
      and e = outage and s = store1 and uid = bob and pollId = "''p1''" and p = cats_dogs
      and opts = "[''Cats'', ''Dogs'']" and i = "Finite 1"]
  by (simp add: example_defs csrf_validation_def fd_get_def fd_getAll_def js_greater_eq_def)

text \<open>
  C9 as stated fails: when the identity provider fails with the message
  \<open>connection to server at 10.0.0.5 failed\<close>, \<open>createPoll\<close> answers that very text.
\<close>

theorem createPoll_forwards_raw_message:
  "message outage = ''connection to server at 10.0.0.5 failed''
   \<and> fst (createPoll ((request_of None)\<lparr>session := \<lparr>user = None, userError = Some outage\<rparr>\<rparr>)
            store1 edit_form)
     = Some ''connection to server at 10.0.0.5 failed''"
  by (simp add: createPoll_def csrf_validation_def fd_get_def fd_getAll_def example_defs)

end
